theory Spec2Isabelle
  imports Complex_Main
begin

unbundle bit_operations_syntax

section \<open>The ST7735S display driver of pi\_cam (display\_driver.py)\<close>

text \<open>
  The driver keeps a 128x128 RGB image in memory, paints on it through an imaging
  library, converts it to 16-bit 5-6-5 pixels and streams the bytes over SPI. The
  embedding below follows \<^verbatim>\<open>class ST7735Display\<close> method by method. Python integers are
  \<open>int\<close>; every raise of the bus is a value \<open>Inl e\<close>; the hardware is a trace of the
  GPIO writes, SPI transfers and sleeps the code performs, in program order.
\<close>

subsection \<open>Exceptions\<close>

text \<open>
  \<^verbatim>\<open>OSError\<close> comes from the bus and from a font file that does not open,
  \<^verbatim>\<open>OverflowError\<close> and \<^verbatim>\<open>ValueError\<close> from the imaging library.
\<close>

datatype exn = OSError | OverflowError | ValueError

subsection \<open>Colours as the callers pass them\<close>

type_synonym rgb = "int \<times> int \<times> int"

text \<open>
  A colour argument is any Python value. \<open>Tuple xs\<close> is a tuple of integers, \<open>NonTuple\<close>
  stands for every value that fails \<^verbatim>\<open>isinstance(color, tuple)\<close>.
\<close>

datatype color_arg = Tuple "int list" | NonTuple

text \<open>
  \<^verbatim>\<open>if isinstance(color, tuple) and len(color) >= 3: fill_color = color[:3]\<close>
  \<^verbatim>\<open>else: fill_color = default\<close>
\<close>

fun pick_color :: "color_arg \<Rightarrow> rgb \<Rightarrow> rgb" where
  "pick_color (Tuple (r # g # b # rest)) dflt = (r, g, b)"
| "pick_color c dflt = dflt"

subsection \<open>The imaging library (PIL), as far as the driver uses it\<close>

text \<open>
  An RGB image is its size and its pixels in row-major order, the order in which
  \<^verbatim>\<open>getdata()\<close> lists them. The library stores one byte per band. When it turns a
  colour tuple into ink it reads the first component as a C \<^verbatim>\<open>long long\<close> and the others
  as C \<^verbatim>\<open>int\<close>, raises \<^verbatim>\<open>OverflowError\<close> when one does not fit, and clips each to
  \<open>0..255\<close>.
\<close>

record image =
  im_width :: nat
  im_height :: nat
  im_data :: "rgb list"

definition CLIP8 :: "int \<Rightarrow> int" where
  "CLIP8 v = (if v \<le> 0 then 0 else if 255 \<le> v then 255 else v)"

definition ink :: "rgb \<Rightarrow> rgb" where
  "ink c = (case c of (r, g, b) \<Rightarrow> (CLIP8 r, CLIP8 g, CLIP8 b))"

definition fits_long_long :: "int \<Rightarrow> bool" where
  "fits_long_long v = (- (2 ^ 63) \<le> v \<and> v < 2 ^ 63)"

definition fits_c_int :: "int \<Rightarrow> bool" where
  "fits_c_int v = (- (2 ^ 31) \<le> v \<and> v < 2 ^ 31)"

definition ink_fits :: "rgb \<Rightarrow> bool" where
  "ink_fits c = (case c of (r, g, b) \<Rightarrow> fits_long_long r \<and> fits_c_int g \<and> fits_c_int b)"

definition Image_new :: "nat \<Rightarrow> nat \<Rightarrow> rgb \<Rightarrow> image" where
  "Image_new w h c = \<lparr>im_width = w, im_height = h, im_data = replicate (w * h) (ink c)\<rparr>"

definition wf_image :: "image \<Rightarrow> bool" where
  "wf_image img = (length (im_data img) = im_width img * im_height img)"

definition getpixel :: "image \<Rightarrow> nat \<times> nat \<Rightarrow> rgb" where
  "getpixel img p = (case p of (x, y) \<Rightarrow> im_data img ! (y * im_width img + x))"

text \<open>
  Painting sets every pixel of the image whose coordinates satisfy a mask; whatever lies
  outside the image is clipped, because only indices of the pixel list are visited.
\<close>

definition paint :: "(int \<times> int \<Rightarrow> bool) \<Rightarrow> rgb \<Rightarrow> image \<Rightarrow> image" where
  "paint inside c img =
     img\<lparr>im_data :=
       map (\<lambda>i. if inside (int (i mod im_width img), int (i div im_width img))
                 then c else im_data img ! i)
           [0..<length (im_data img)]\<rparr>"

text \<open>
  \<^verbatim>\<open>ImageDraw.rectangle([(x0, y0), (x1, y1)], fill, outline)\<close>. The bounding box includes
  both corner points, so a filled box covers the columns \<open>x0..x1\<close> and the rows
  \<open>y0..y1\<close>. An outline whose ink differs from the fill's is drawn after the fill with
  width 1: the rows \<open>y0\<close> and \<open>y1\<close> from \<open>x0\<close> to \<open>x1\<close>, and the columns \<open>x0\<close> and
  \<open>x1\<close> along the line from \<open>y0 + 1\<close> to \<open>y1\<close>, both ends included.
\<close>

definition in_box :: "int \<times> int \<Rightarrow> int \<times> int \<Rightarrow> int \<times> int \<Rightarrow> bool" where
  "in_box p0 p1 p =
     (case p0 of (x0, y0) \<Rightarrow> case p1 of (x1, y1) \<Rightarrow> case p of (px, py) \<Rightarrow>
        x0 \<le> px \<and> px \<le> x1 \<and> y0 \<le> py \<and> py \<le> y1)"

definition on_border :: "int \<times> int \<Rightarrow> int \<times> int \<Rightarrow> int \<times> int \<Rightarrow> bool" where
  "on_border p0 p1 p =
     (case p0 of (x0, y0) \<Rightarrow> case p1 of (x1, y1) \<Rightarrow> case p of (px, py) \<Rightarrow>
        (x0 \<le> px \<and> px \<le> x1 \<and> (py = y0 \<or> py = y1))
        \<or> ((px = x0 \<or> px = x1) \<and> min (y0 + 1) y1 \<le> py \<and> py \<le> max (y0 + 1) y1))"

definition ImageDraw_rectangle ::
  "int \<times> int \<Rightarrow> int \<times> int \<Rightarrow> rgb \<Rightarrow> rgb option \<Rightarrow> image \<Rightarrow> image" where
  "ImageDraw_rectangle p0 p1 fill outline img =
     (let filled = paint (in_box p0 p1) (ink fill) img
      in case outline of
           None \<Rightarrow> filled
         | Some ol \<Rightarrow>
             if ink ol = ink fill then filled else paint (on_border p0 p1) (ink ol) filled)"

text \<open>
  What the call raises, if anything, before it paints: \<^verbatim>\<open>OverflowError\<close> for an outline
  or a fill colour that does not fit, then \<^verbatim>\<open>ValueError\<close> for the box. The library casts
  the coordinates to C \<^verbatim>\<open>int\<close> and refuses a second corner that lies before the first;
  what a coordinate outside the C \<^verbatim>\<open>int\<close> range does depends on the platform, and such
  a box is taken as refused. \<open>ImageDraw_rectangle\<close> is the image after a call that
  returns.
\<close>

definition box_ok :: "int \<times> int \<Rightarrow> int \<times> int \<Rightarrow> bool" where
  "box_ok p0 p1 =
     (case p0 of (x0, y0) \<Rightarrow> case p1 of (x1, y1) \<Rightarrow>
        fits_c_int x0 \<and> fits_c_int y0 \<and> fits_c_int x1 \<and> fits_c_int y1
        \<and> x0 \<le> x1 \<and> y0 \<le> y1)"

definition rectangle_raises :: "int \<times> int \<Rightarrow> int \<times> int \<Rightarrow> rgb \<Rightarrow> rgb option \<Rightarrow> exn option" where
  "rectangle_raises p0 p1 fill outline =
     (if (case outline of Some ol \<Rightarrow> \<not> ink_fits ol | None \<Rightarrow> False) then Some OverflowError
      else if \<not> ink_fits fill then Some OverflowError
      else if \<not> box_ok p0 p1 then Some ValueError
      else None)"

subsection \<open>Fonts\<close>

datatype font = TrueType string int | DefaultFont

definition font_paths :: "string list" where
  "font_paths =
     [''/usr/share/fonts/truetype/dejavu/DejaVuSans.ttf'',
      ''/usr/share/fonts/truetype/liberation/LiberationSans-Regular.ttf'',
      ''/usr/share/fonts/truetype/droid/DroidSans.ttf'']"

definition font_sizes :: "int list" where
  "font_sizes = [8, 9, 10, 12, 14, 16, 20, 24]"

text \<open>
  The candidate loop of \<^verbatim>\<open>load_fonts\<close>: the first font file that opens fills the cache
  with that face at the eight sizes; a file that does not open raises \<^verbatim>\<open>OSError\<close> and
  the next path is tried. Which files open is the environment's choice, the parameter
  \<open>readable\<close>.
\<close>

fun try_font_paths ::
  "(string \<Rightarrow> bool) \<Rightarrow> string list \<Rightarrow> (string \<times> (int \<rightharpoonup> font)) option" where
  "try_font_paths readable [] = None"
| "try_font_paths readable (font_path # rest) =
     (if readable font_path
      then Some (font_path, map_of (map (\<lambda>size. (size, TrueType font_path size)) font_sizes))
      else try_font_paths readable rest)"

subsection \<open>The hardware and the driver object\<close>

datatype level = LOW | HIGH

datatype event =
    GpioOutput nat level
  | SpiXfer "int list"
  | SpiClose
  | Sleep real

datatype message =
    LoadedFonts string
  | UsingDefaultFont
  | DriverInitialized
  | InitializingDisplay
  | DisplayReady
  | CleanupComplete
  | CleanupError exn

abbreviation DC_PIN :: nat where "DC_PIN \<equiv> 24"
abbreviation RST_PIN :: nat where "RST_PIN \<equiv> 25"
abbreviation WIDTH :: nat where "WIDTH \<equiv> 128"
abbreviation HEIGHT :: nat where "HEIGHT \<equiv> 128"

text \<open>
  Image objects live in a store, because two references of the driver can name the same
  object: \<open>self_image\<close> is \<^verbatim>\<open>self.image\<close>, the image \<^verbatim>\<open>update()\<close> reads, and
  \<open>self_draw\<close> is the image the drawing handle \<^verbatim>\<open>self.draw = ImageDraw.Draw(self.image)\<close>
  was bound to when it was created. \<open>bus_fault\<close> is the environment: whether the
  transfer attempted at a given position of the trace fails. Sleep durations are the
  decimal literals of the source, in seconds.
\<close>

record driver =
  heap :: "nat \<Rightarrow> image"
  next_id :: nat
  self_image :: nat
  self_draw :: nat
  self_fonts :: "int \<rightharpoonup> font"
  spi_open :: bool
  bus_fault :: "nat \<Rightarrow> bool"
  trace :: "event list"
  console :: "message list"

type_synonym action = "driver \<Rightarrow> (exn + unit) \<times> driver"

definition gpio_output :: "nat \<Rightarrow> level \<Rightarrow> action" where
  "gpio_output pin lv s = (Inr (), s\<lparr>trace := trace s @ [GpioOutput pin lv]\<rparr>)"

definition sleep :: "real \<Rightarrow> action" where
  "sleep secs s = (Inr (), s\<lparr>trace := trace s @ [Sleep secs]\<rparr>)"

definition print :: "message \<Rightarrow> action" where
  "print m s = (Inr (), s\<lparr>console := console s @ [m]\<rparr>)"

text \<open>
  \<^verbatim>\<open>spi.xfer2(bytes)\<close> raises \<^verbatim>\<open>OSError\<close> when the handle is closed or the transfer
  fails; \<^verbatim>\<open>spi.close()\<close> releases the handle.
\<close>

definition spi_xfer2 :: "int list \<Rightarrow> action" where
  "spi_xfer2 bytes s =
     (if spi_open s \<and> \<not> bus_fault s (length (trace s))
      then (Inr (), s\<lparr>trace := trace s @ [SpiXfer bytes]\<rparr>)
      else (Inl OSError, s))"

definition spi_close :: action where
  "spi_close s = (Inr (), s\<lparr>spi_open := False, trace := trace s @ [SpiClose]\<rparr>)"

text \<open>Statements in sequence: the first exception ends the run and keeps the state reached.\<close>

fun run_all :: "action list \<Rightarrow> action" where
  "run_all [] s = (Inr (), s)"
| "run_all (m # ms) s =
     (case m s of
        (Inl e, s') \<Rightarrow> (Inl e, s')
      | (Inr u, s') \<Rightarrow> run_all ms s')"

text \<open>
  \<^verbatim>\<open>load_fonts\<close> sets the font cache and prints which fonts it took: those of the first
  file that opened, or the library's built-in default font at every size when none did.
\<close>

definition load_fonts :: "(string \<Rightarrow> bool) \<Rightarrow> driver \<Rightarrow> driver" where
  "load_fonts readable s =
     (case try_font_paths readable font_paths of
        Some (font_path, fonts) \<Rightarrow>
          s\<lparr>self_fonts := fonts, console := console s @ [LoadedFonts font_path]\<rparr>
      | None \<Rightarrow>
          s\<lparr>self_fonts := map_of (map (\<lambda>size. (size, DefaultFont)) font_sizes),
            console := console s @ [UsingDefaultFont]\<rparr>)"

text \<open>
  \<^verbatim>\<open>__init__\<close>: one black 128x128 image, object 0, the drawing handle bound to it, and
  the font cache. An identifier not yet allocated holds an empty image.
\<close>

definition construct :: "(string \<Rightarrow> bool) \<Rightarrow> (nat \<Rightarrow> bool) \<Rightarrow> driver" where
  "construct readable faults =
     (let s = load_fonts readable
                \<lparr>heap = (\<lambda>i. Image_new 0 0 (0, 0, 0))(0 := Image_new WIDTH HEIGHT (0, 0, 0)),
                 next_id = 1,
                 self_image = 0,
                 self_draw = 0,
                 self_fonts = Map.empty,
                 spi_open = True,
                 bus_fault = faults,
                 trace = [],
                 console = []\<rparr>
      in s\<lparr>console := console s @ [DriverInitialized]\<rparr>)"

subsection \<open>Bus transport\<close>

text \<open>\<^verbatim>\<open>_send_command(cmd, data=None)\<close>; \<^verbatim>\<open>if data:\<close> holds for a non-empty list.\<close>

definition send_command :: "int \<Rightarrow> int list option \<Rightarrow> action" where
  "send_command cmd data =
     run_all ([gpio_output DC_PIN LOW, spi_xfer2 [cmd]] @
              (case data of
                 Some (d # ds) \<Rightarrow> [gpio_output DC_PIN HIGH, spi_xfer2 (d # ds)]
               | _ \<Rightarrow> []))"

text \<open>\<^verbatim>\<open>range(start, stop, step)\<close> for a positive step.\<close>

function py_range :: "nat \<Rightarrow> nat \<Rightarrow> nat \<Rightarrow> nat list" where
  "py_range start stop step =
     (if step = 0 \<or> stop \<le> start then [] else start # py_range (start + step) stop step)"
  by pat_completeness auto
termination
  by (relation "measure (\<lambda>(start, stop, step). stop - start)") auto

declare py_range.simps [simp del]

abbreviation chunk_size :: nat where "chunk_size \<equiv> 4096"

text \<open>
  \<^verbatim>\<open>_send_data(data)\<close>: data mode, then
  \<^verbatim>\<open>for i in range(0, len(data), chunk_size): self.spi.xfer2(data[i:i + chunk_size])\<close>.
\<close>

definition send_data :: "int list \<Rightarrow> action" where
  "send_data data =
     run_all (gpio_output DC_PIN HIGH #
              map (\<lambda>i. spi_xfer2 (take chunk_size (drop i data)))
                  (py_range 0 (length data) chunk_size))"

subsection \<open>Drawing primitives\<close>

definition clear :: "color_arg \<Rightarrow> action" where
  "clear color s =
     (let fill_color = pick_color color (0, 0, 0)
      in case rectangle_raises (0, 0) (int WIDTH, int HEIGHT) fill_color None of
           Some e \<Rightarrow> (Inl e, s)
         | None \<Rightarrow>
             (Inr (),
              s\<lparr>heap := (heap s)(self_draw s :=
                   ImageDraw_rectangle (0, 0) (int WIDTH, int HEIGHT) fill_color None
                     (heap s (self_draw s)))\<rparr>))"

text \<open>
  \<^verbatim>\<open>draw_rectangle(x, y, width, height, color, outline)\<close> with integer coordinates and
  non-negative extents; \<open>outline\<close> is \<^verbatim>\<open>None\<close> or a tuple already cut to three
  components.
\<close>

definition draw_rectangle ::
  "int \<Rightarrow> int \<Rightarrow> nat \<Rightarrow> nat \<Rightarrow> color_arg \<Rightarrow> rgb option \<Rightarrow> action" where
  "draw_rectangle x y width height color outline s =
     (let coords0 = (x, y);
          coords1 = (x + int width, y + int height);
          fill_color = pick_color color (255, 255, 255)
      in case rectangle_raises coords0 coords1 fill_color outline of
           Some e \<Rightarrow> (Inl e, s)
         | None \<Rightarrow>
             (Inr (),
              s\<lparr>heap := (heap s)(self_draw s :=
                   ImageDraw_rectangle coords0 coords1 fill_color outline
                     (heap s (self_draw s)))\<rparr>))"

text \<open>
  \<^verbatim>\<open>draw_text\<close>: the font is the argument when one is given, else
  \<^verbatim>\<open>self.fonts.get(size, self.fonts.get(10))\<close>; \<open>None\<close> is Python's \<^verbatim>\<open>None\<close>. The glyph
  rasteriser of the library, \<^verbatim>\<open>ImageDraw.text\<close>, is a parameter: it returns the image with
  the text drawn, or the exception it raises.
\<close>

definition draw_text_font :: "(int \<rightharpoonup> font) \<Rightarrow> int \<Rightarrow> font option \<Rightarrow> font option" where
  "draw_text_font fonts sz font =
     (case font of
        Some f \<Rightarrow> Some f
      | None \<Rightarrow> (case fonts sz of Some f \<Rightarrow> Some f | None \<Rightarrow> fonts 10))"

definition draw_text ::
  "(font option \<Rightarrow> string \<Rightarrow> int \<times> int \<Rightarrow> rgb \<Rightarrow> image \<Rightarrow> exn + image) \<Rightarrow>
   string \<Rightarrow> int \<Rightarrow> int \<Rightarrow> color_arg \<Rightarrow> int \<Rightarrow> font option \<Rightarrow> action" where
  "draw_text rasterise text x y color sz font s =
     (let font' = draw_text_font (self_fonts s) sz font;
          text_color = pick_color color (255, 255, 255)
      in case rasterise font' text (x, y) text_color (heap s (self_draw s)) of
           Inl e \<Rightarrow> (Inl e, s)
         | Inr img \<Rightarrow> (Inr (), s\<lparr>heap := (heap s)(self_draw s := img)\<rparr>))"

subsection \<open>Colour conversion and update\<close>

text \<open>The body of the conversion loop of \<^verbatim>\<open>update()\<close>, for one pixel.\<close>

definition pack565 :: "rgb \<Rightarrow> int" where
  "pack565 pixel =
     (case pixel of (r, g, b) \<Rightarrow>
        (let r565 = push_bit 11 (drop_bit 3 r);
             g565 = push_bit 5 (drop_bit 2 g);
             b565 = drop_bit 3 b
         in (r565 OR g565) OR b565))"

definition rgb565_bytes :: "rgb \<Rightarrow> int list" where
  "rgb565_bytes pixel =
     (let rgb565 = pack565 pixel
      in [drop_bit 8 rgb565 AND 0xFF, rgb565 AND 0xFF])"

fun convert_rgb565 :: "rgb list \<Rightarrow> int list" where
  "convert_rgb565 [] = []"
| "convert_rgb565 (pixel # pixels) = rgb565_bytes pixel @ convert_rgb565 pixels"

definition update :: action where
  "update s =
     (let rgb_image = heap s (self_image s);
          pixels = im_data rgb_image;
          rgb565_data = convert_rgb565 pixels
      in run_all [send_command 0x2C None, send_data rgb565_data] s)"

subsection \<open>Start-up, flash and teardown\<close>

definition init_display :: action where
  "init_display =
     run_all
      [print InitializingDisplay,
       gpio_output RST_PIN HIGH, sleep 0.01,
       gpio_output RST_PIN LOW, sleep 0.01,
       gpio_output RST_PIN HIGH, sleep 0.12,
       send_command 0x01 None, sleep 0.15,
       send_command 0x11 None, sleep 0.5,
       send_command 0xB1 (Some [0x01, 0x2C, 0x2D]),
       send_command 0xB2 (Some [0x01, 0x2C, 0x2D]),
       send_command 0xB3 (Some [0x01, 0x2C, 0x2D, 0x01, 0x2C, 0x2D]),
       send_command 0xB4 (Some [0x07]),
       send_command 0xC0 (Some [0xA2, 0x02, 0x84]),
       send_command 0xC1 (Some [0xC5]),
       send_command 0xC2 (Some [0x0A, 0x00]),
       send_command 0xC3 (Some [0x8A, 0x2A]),
       send_command 0xC4 (Some [0x8A, 0xEE]),
       send_command 0xC5 (Some [0x0E]),
       send_command 0x20 None,
       send_command 0x36 (Some [0x00]),
       send_command 0x3A (Some [0x05]),
       send_command 0x2A (Some [0x00, 0x00, 0x00, 0x7F]),
       send_command 0x2B (Some [0x00, 0x00, 0x00, 0x7F]),
       send_command 0xE0 (Some [0x02, 0x1C, 0x07, 0x12, 0x37, 0x32, 0x29, 0x2D,
                                0x29, 0x25, 0x2B, 0x39, 0x00, 0x01, 0x03, 0x10]),
       send_command 0xE1 (Some [0x03, 0x1D, 0x07, 0x06, 0x2E, 0x2C, 0x29, 0x2D,
                                0x2E, 0x2E, 0x37, 0x3F, 0x00, 0x00, 0x02, 0x10]),
       send_command 0x13 None, sleep 0.01,
       send_command 0x29 None, sleep 0.12,
       clear (Tuple [0, 0, 0]),
       update,
       print DisplayReady]"

text \<open>\<^verbatim>\<open>self.image.copy()\<close> allocates a new image object with the same content.\<close>

definition Image_copy :: "nat \<Rightarrow> driver \<Rightarrow> nat \<times> driver" where
  "Image_copy src s =
     (next_id s, s\<lparr>heap := (heap s)(next_id s := heap s src), next_id := Suc (next_id s)\<rparr>)"

definition set_image :: "nat \<Rightarrow> action" where
  "set_image ref s = (Inr (), s\<lparr>self_image := ref\<rparr>)"

definition flash_screen :: "color_arg \<Rightarrow> real \<Rightarrow> action" where
  "flash_screen color duration s =
     (case Image_copy (self_image s) s of
        (original_image, s1) \<Rightarrow>
          run_all [clear color, update, sleep duration,
                   set_image original_image, update] s1)"

text \<open>\<^verbatim>\<open>cleanup()\<close>: the body runs under \<^verbatim>\<open>try\<close>; \<^verbatim>\<open>except Exception\<close> prints and returns.\<close>

definition cleanup :: action where
  "cleanup s =
     (case run_all [clear (Tuple [0, 0, 0]), update, spi_close,
                    gpio_output RST_PIN LOW, print CleanupComplete] s of
        (Inr u, s') \<Rightarrow> (Inr (), s')
      | (Inl e, s') \<Rightarrow> print (CleanupError e) s')"

subsection \<open>What the controller sees, and the layout the pixel format documents\<close>

text \<open>
  The panel reads a transfer as a command while its data/command line is low and as data
  while the line is high. \<open>decode_bus\<close> replays a trace from a given level of that line.
\<close>

datatype wire = Command "int list" | Data "int list"

fun decode_bus :: "level \<Rightarrow> event list \<Rightarrow> wire list" where
  "decode_bus dc [] = []"
| "decode_bus dc (GpioOutput pin lv # es) =
     (if pin = DC_PIN then decode_bus lv es else decode_bus dc es)"
| "decode_bus dc (SpiXfer bytes # es) =
     (case dc of LOW \<Rightarrow> Command bytes | HIGH \<Rightarrow> Data bytes) # decode_bus dc es"
| "decode_bus dc (SpiClose # es) = decode_bus dc es"
| "decode_bus dc (Sleep secs # es) = decode_bus dc es"

text \<open>The slices \<^verbatim>\<open>data[i:i + chunk_size]\<close> that \<^verbatim>\<open>_send_data\<close> transfers, in order.\<close>

definition chunks :: "int list \<Rightarrow> int list list" where
  "chunks data = map (\<lambda>i. take chunk_size (drop i data)) (py_range 0 (length data) chunk_size)"

text \<open>The events of one \<^verbatim>\<open>update()\<close> of an image on a working bus.\<close>

definition frame_events :: "image \<Rightarrow> event list" where
  "frame_events img =
     [GpioOutput DC_PIN LOW, SpiXfer [0x2C], GpioOutput DC_PIN HIGH] @
     map SpiXfer (chunks (convert_rgb565 (im_data img)))"

text \<open>
  Reading a pixel back from its two bytes, by the documented layout: red in bits 11 to 15,
  green in bits 5 to 10, blue in bits 0 to 4, each returned at its place in a byte.
\<close>

definition decode565 :: "int list \<Rightarrow> rgb" where
  "decode565 bytes =
     (case bytes of
        [hi, lo] \<Rightarrow>
          (let v = push_bit 8 hi OR lo
           in (push_bit 3 (drop_bit 11 v),
               push_bit 2 (drop_bit 5 v AND 0x3F),
               push_bit 3 (v AND 0x1F)))
      | _ \<Rightarrow> (0, 0, 0))"


subsection \<open>Environments used for concrete runs\<close>

text \<open>No font file opens, or only the first candidate does; no transfer ever fails.\<close>

definition no_font_files :: "string \<Rightarrow> bool" where
  "no_font_files font_path = False"

definition never_faults :: "nat \<Rightarrow> bool" where
  "never_faults k = False"

text \<open>A rasteriser that draws no glyph and never raises.\<close>

definition no_glyphs :: "font option \<Rightarrow> string \<Rightarrow> int \<times> int \<Rightarrow> rgb \<Rightarrow> image \<Rightarrow> exn + image" where
  "no_glyphs font text pos color img = Inr img"

subsection \<open>The nearest supported font size, as the specification words it\<close>

text \<open>
  The supported size closest to a requested size (the smaller one on a tie). It is not
  part of the driver; the font selection of \<^verbatim>\<open>draw_text\<close> is compared with it.
\<close>

fun nearest_in :: "int \<Rightarrow> int list \<Rightarrow> int \<Rightarrow> int" where
  "nearest_in best [] sz = best"
| "nearest_in best (c # cs) sz =
     nearest_in (if \<bar>c - sz\<bar> < \<bar>best - sz\<bar> then c else best) cs sz"

definition nearest_supported_size :: "int \<Rightarrow> int" where
  "nearest_supported_size sz = nearest_in 8 font_sizes sz"

definition dejavu_installed :: "string \<Rightarrow> bool" where
  "dejavu_installed font_path = (font_path = ''/usr/share/fonts/truetype/dejavu/DejaVuSans.ttf'')"

subsection \<open>Reading the command stream\<close>

text \<open>The opcodes of a decoded stream, in order.\<close>

fun commands :: "wire list \<Rightarrow> int list" where
  "commands [] = []"
| "commands (Command bytes # ws) = bytes @ commands ws"
| "commands (Data bytes # ws) = commands ws"

text \<open>
  The parameters of the controller's column and row address commands for a window
  that starts at 0 and spans \<open>extent\<close> pixels: start and end, 16 bits each, high byte first.
\<close>

definition window_params :: "nat \<Rightarrow> int list" where
  "window_params extent =
     [0, 0, (int extent - 1) div 256, (int extent - 1) mod 256]"

subsection \<open>A fresh driver and solid images\<close>

abbreviation fresh_driver :: driver where
  "fresh_driver \<equiv> construct no_font_files never_faults"

abbreviation solid :: "rgb \<Rightarrow> image" where
  "solid c \<equiv> Image_new WIDTH HEIGHT c"

section \<open>Construction and the checks of the imaging library\<close>

lemma load_fonts_frame:
  "heap (load_fonts readable s) = heap s" "self_draw (load_fonts readable s) = self_draw s"
  "self_image (load_fonts readable s) = self_image s" "trace (load_fonts readable s) = trace s"
  "spi_open (load_fonts readable s) = spi_open s" "bus_fault (load_fonts readable s) = bus_fault s"
  "next_id (load_fonts readable s) = next_id s"
  by (simp_all add: load_fonts_def split: option.splits)

lemma construct_simps:
  "heap (construct readable faults) =
     (\<lambda>i. Image_new 0 0 (0, 0, 0))(0 := Image_new WIDTH HEIGHT (0, 0, 0))"
  "self_image (construct readable faults) = 0" "self_draw (construct readable faults) = 0"
  "next_id (construct readable faults) = 1" "spi_open (construct readable faults)"
  "bus_fault (construct readable faults) = faults" "trace (construct readable faults) = []"
  by (simp_all add: construct_def Let_def load_fonts_frame)

lemmas fits_defs = ink_fits_def fits_long_long_def fits_c_int_def box_ok_def

lemma rectangle_raises_whole:
  "rectangle_raises (0, 0) (128, 128) c None =
     (if ink_fits c then None else Some OverflowError)"
  by (simp add: rectangle_raises_def box_ok_def fits_c_int_def)

lemma clear_returns:
  "ink_fits (pick_color color (0, 0, 0)) \<Longrightarrow>
   clear color s =
     (Inr (),
      s\<lparr>heap := (heap s)(self_draw s :=
           ImageDraw_rectangle (0, 0) (int WIDTH, int HEIGHT) (pick_color color (0, 0, 0)) None
             (heap s (self_draw s)))\<rparr>)"
  by (simp add: clear_def Let_def rectangle_raises_whole)

lemma clear_raises:
  "\<not> ink_fits (pick_color color (0, 0, 0)) \<Longrightarrow> clear color s = (Inl OverflowError, s)"
  by (simp add: clear_def Let_def rectangle_raises_whole)

lemma draw_rectangle_returns:
  "rectangle_raises (x, y) (x + int w, y + int h) (pick_color color (255, 255, 255)) outline = None \<Longrightarrow>
   draw_rectangle x y w h color outline s =
     (Inr (),
      s\<lparr>heap := (heap s)(self_draw s :=
           ImageDraw_rectangle (x, y) (x + int w, y + int h) (pick_color color (255, 255, 255)) outline
             (heap s (self_draw s)))\<rparr>)"
  by (simp add: draw_rectangle_def Let_def)

section \<open>Running statements on a working bus\<close>

lemma run_all_append:
  "run_all (ms @ ns) s =
     (case run_all ms s of (Inl e, s') \<Rightarrow> (Inl e, s') | (Inr u, s') \<Rightarrow> run_all ns s')"
  by (induction ms arbitrary: s) (auto split: prod.splits sum.splits)

lemma run_all_xfers:
  "spi_open s \<Longrightarrow> \<forall>k. \<not> bus_fault s k \<Longrightarrow>
   run_all (map spi_xfer2 cs) s = (Inr (), s\<lparr>trace := trace s @ map SpiXfer cs\<rparr>)"
proof (induction cs arbitrary: s)
  case Nil
  then show ?case by simp
next
  case (Cons c cs)
  let ?s1 = "s\<lparr>trace := trace s @ [SpiXfer c]\<rparr>"
  have "run_all (map spi_xfer2 cs) ?s1 = (Inr (), ?s1\<lparr>trace := trace ?s1 @ map SpiXfer cs\<rparr>)"
    using Cons.prems by (intro Cons.IH) simp_all
  moreover have "spi_xfer2 c s = (Inr (), ?s1)"
    using Cons.prems by (simp add: spi_xfer2_def)
  ultimately show ?case by simp
qed

lemma send_command_healthy:
  "spi_open s \<Longrightarrow> \<forall>k. \<not> bus_fault s k \<Longrightarrow>
   send_command cmd None s = (Inr (), s\<lparr>trace := trace s @ [GpioOutput DC_PIN LOW, SpiXfer [cmd]]\<rparr>)"
  by (simp add: send_command_def gpio_output_def spi_xfer2_def)

lemma send_command_data_healthy:
  "spi_open s \<Longrightarrow> \<forall>k. \<not> bus_fault s k \<Longrightarrow>
   send_command cmd (Some (d # ds)) s =
     (Inr (), s\<lparr>trace := trace s @ [GpioOutput DC_PIN LOW, SpiXfer [cmd], GpioOutput DC_PIN HIGH, SpiXfer (d # ds)]\<rparr>)"
  by (simp add: send_command_def gpio_output_def spi_xfer2_def)

lemma send_data_healthy:
  assumes "spi_open s" "\<forall>k. \<not> bus_fault s k"
  shows "send_data data s =
     (Inr (), s\<lparr>trace := trace s @ GpioOutput DC_PIN HIGH # map SpiXfer (chunks data)\<rparr>)"
proof -
  let ?s1 = "s\<lparr>trace := trace s @ [GpioOutput DC_PIN HIGH]\<rparr>"
  have "run_all (map spi_xfer2 (chunks data)) ?s1 =
          (Inr (), ?s1\<lparr>trace := trace ?s1 @ map SpiXfer (chunks data)\<rparr>)"
    using assms by (intro run_all_xfers) simp_all
  then show ?thesis
    by (simp add: send_data_def gpio_output_def chunks_def comp_def)
qed

lemma update_healthy:
  assumes "spi_open s" "\<forall>k. \<not> bus_fault s k"
  shows "update s = (Inr (), s\<lparr>trace := trace s @ frame_events (heap s (self_image s))\<rparr>)"
proof -
  let ?s1 = "s\<lparr>trace := trace s @ [GpioOutput DC_PIN LOW, SpiXfer [0x2C]]\<rparr>"
  have 1: "send_command 0x2C None s = (Inr (), ?s1)"
    using assms by (rule send_command_healthy)
  have 2: "send_data d ?s1 = (Inr (), ?s1\<lparr>trace := trace ?s1 @ GpioOutput DC_PIN HIGH # map SpiXfer (chunks d)\<rparr>)" for d
    using assms by (intro send_data_healthy) simp_all
  show ?thesis
    by (simp add: update_def Let_def 1 2 frame_events_def)
qed

lemma py_range_concat:
  "0 < n \<Longrightarrow> concat (map (\<lambda>j. take n (drop j xs)) (py_range i (length xs) n)) = drop i xs"
proof (induction i "length xs" n rule: py_range.induct)
  case (1 start step)
  show ?case
  proof (cases "length xs \<le> start")
    case True
    then show ?thesis by (subst py_range.simps) simp
  next
    case False
    with 1 have "concat (map (\<lambda>j. take step (drop j xs)) (py_range (start + step) (length xs) step)) = drop (start + step) xs"
      by simp
    moreover have "take step (drop start xs) @ drop (start + step) xs = drop start xs"
      using append_take_drop_id [of step "drop start xs"] by (simp add: add.commute)
    ultimately show ?thesis
      using False 1(2) by (subst py_range.simps) simp
  qed
qed

lemma concat_chunks: "concat (chunks data) = data"
  using py_range_concat [of chunk_size data 0] by (simp add: chunks_def)

lemma py_range_multiples:
  "j \<in> set (py_range i stop n) \<Longrightarrow> n dvd i \<Longrightarrow> n dvd j \<and> j < stop"
proof (induction i stop n arbitrary: j rule: py_range.induct)
  case (1 start stop step)
  show ?case
  proof (cases "step = 0 \<or> stop \<le> start")
    case True
    with 1(2) show ?thesis by (subst (asm) py_range.simps) simp
  next
    case False
    from 1(2) False have "j = start \<or> j \<in> set (py_range (start + step) stop step)"
      by (subst (asm) py_range.simps) simp
    then show ?thesis
    proof
      assume "j = start" with False 1(3) show ?thesis by simp
    next
      assume "j \<in> set (py_range (start + step) stop step)"
      with 1(1) [OF False this] 1(3) show ?thesis by simp
    qed
  qed
qed

lemma length_convert_rgb565: "length (convert_rgb565 pixels) = 2 * length pixels"
  by (induction pixels) (simp_all add: rgb565_bytes_def Let_def)

section \<open>The colour codec\<close>

lemma and_byte_masks:
  "x AND (0xFF::int) = take_bit 8 x"
  "x AND (0x3F::int) = take_bit 6 x"
  "x AND (0x1F::int) = take_bit 5 x"
proof -
  have "(0xFF::int) = mask 8" "(0x3F::int) = mask 6" "(0x1F::int) = mask 5"
    by (simp_all add: mask_eq_exp_minus_1)
  then show "x AND (0xFF::int) = take_bit 8 x" "x AND (0x3F::int) = take_bit 6 x"
      "x AND (0x1F::int) = take_bit 5 x"
    by (simp_all add: take_bit_eq_mask)
qed

lemma pack565_bits:
  assumes "0 \<le> r" "r \<le> 255" "0 \<le> g" "g \<le> 255" "0 \<le> b" "b \<le> 255"
  shows "pack565 (r, g, b) =
           (push_bit 11 (drop_bit 3 (take_bit 8 r)) OR push_bit 5 (drop_bit 2 (take_bit 8 g)))
             OR drop_bit 3 (take_bit 8 b)"
  using assms by (simp add: pack565_def take_bit_int_eq_self)

lemma pack565_sum:
  assumes "0 \<le> r" "r \<le> 255" "0 \<le> g" "g \<le> 255" "0 \<le> b" "b \<le> 255"
  shows "pack565 (r, g, b) = (r div 8) * 2048 + (g div 4) * 32 + b div 8"
proof -
  let ?pr = "push_bit 11 (drop_bit 3 (take_bit 8 r))"
  let ?pg = "push_bit 5 (drop_bit 2 (take_bit 8 g))"
  let ?pb = "drop_bit 3 (take_bit 8 b)"
  have 1: "?pr OR ?pg = ?pr + ?pg"
    by (rule disjunctive_add [symmetric]) (auto simp add: bit_simps)
  have 2: "(?pr OR ?pg) OR ?pb = (?pr OR ?pg) + ?pb"
    by (rule disjunctive_add [symmetric]) (auto simp add: bit_simps)
  have "pack565 (r, g, b) = ?pr + ?pg + ?pb"
    unfolding pack565_bits [OF assms] 2 unfolding 1 ..
  also have "\<dots> = (r div 8) * 2048 + (g div 4) * 32 + b div 8"
    using assms by (simp add: push_bit_eq_mult drop_bit_eq_div take_bit_int_eq_self)
  finally show ?thesis .
qed

lemma pack565_range:
  assumes "0 \<le> r" "r \<le> 255" "0 \<le> g" "g \<le> 255" "0 \<le> b" "b \<le> 255"
  shows "0 \<le> pack565 (r, g, b) \<and> pack565 (r, g, b) < 65536"
proof -
  have "r div 8 \<le> 31" "g div 4 \<le> 63" "b div 8 \<le> 31" "0 \<le> r div 8" "0 \<le> g div 4" "0 \<le> b div 8"
    using assms by simp_all
  then show ?thesis
    unfolding pack565_sum [OF assms] by linarith
qed

lemma rgb565_bytes_div_mod:
  "rgb565_bytes p = [pack565 p div 256 mod 256, pack565 p mod 256]"
  by (simp add: rgb565_bytes_def Let_def and_byte_masks take_bit_eq_mod drop_bit_eq_div)

lemma recombine16: "push_bit 8 (take_bit 8 (drop_bit 8 v)) OR take_bit 8 v = take_bit 16 (v::int)"
  by (rule bit_eqI) (auto simp add: bit_simps)

lemma hi5:
  "drop_bit 11 ((push_bit 11 (drop_bit 3 (take_bit 8 r)) OR push_bit 5 (drop_bit 2 (take_bit 8 g))) OR drop_bit 3 (take_bit 8 b))
    = drop_bit 3 (take_bit 8 (r::int))"
  by (rule bit_eqI) (auto simp add: bit_simps)

lemma mid6:
  "take_bit 6 (drop_bit 5 ((push_bit 11 (drop_bit 3 (take_bit 8 r)) OR push_bit 5 (drop_bit 2 (take_bit 8 g))) OR drop_bit 3 (take_bit 8 b)))
    = drop_bit 2 (take_bit 8 (g::int))"
  by (rule bit_eqI) (auto simp add: bit_simps)

lemma lo5:
  "take_bit 5 ((push_bit 11 (drop_bit 3 (take_bit 8 r)) OR push_bit 5 (drop_bit 2 (take_bit 8 g))) OR drop_bit 3 (take_bit 8 b))
    = drop_bit 3 (take_bit 8 (b::int))"
  by (rule bit_eqI) (auto simp add: bit_simps)

lemma high_byte_small:
  assumes "0 \<le> (v::int)" "v < 65536" shows "v div 256 mod 256 = v div 256"
proof -
  have "0 \<le> v div 256" using assms by (simp add: div_int_pos_iff)
  moreover have "v div 256 \<le> 65535 div 256"
    by (rule zdiv_mono1) (use assms in simp_all)
  ultimately show ?thesis by simp
qed

lemma decode_pack:
  assumes "0 \<le> r" "r \<le> 255" "0 \<le> g" "g \<le> 255" "0 \<le> b" "b \<le> 255"
  shows "decode565 (rgb565_bytes (r, g, b)) =
           (push_bit 3 (drop_bit 3 r), push_bit 2 (drop_bit 2 g), push_bit 3 (drop_bit 3 b))"
proof -
  have tb: "take_bit 8 r = r" "take_bit 8 g = g" "take_bit 8 b = b"
    using assms by (simp_all add: take_bit_int_eq_self)
  define v where "v = pack565 (r, g, b)"
  have v: "v = (push_bit 11 (drop_bit 3 (take_bit 8 r)) OR push_bit 5 (drop_bit 2 (take_bit 8 g))) OR drop_bit 3 (take_bit 8 b)"
    unfolding v_def by (rule pack565_bits [OF assms])
  have "take_bit 16 v = v"
    using pack565_range [OF assms] by (simp add: v_def take_bit_int_eq_self)
  then have whole: "push_bit 8 (take_bit 8 (drop_bit 8 v)) OR take_bit 8 v = v"
    by (simp add: recombine16)
  have hi: "drop_bit 11 v = drop_bit 3 r"
    unfolding v hi5 by (simp add: tb)
  have mid: "take_bit 6 (drop_bit 5 v) = drop_bit 2 g"
    unfolding v mid6 by (simp add: tb)
  have lo: "take_bit 5 v = drop_bit 3 b"
    unfolding v lo5 by (simp add: tb)
  have bytes: "rgb565_bytes (r, g, b) = [take_bit 8 (drop_bit 8 v), take_bit 8 v]"
    by (simp add: rgb565_bytes_def Let_def and_byte_masks v_def)
  show ?thesis
    unfolding bytes
    by (simp only: decode565_def list.case Let_def and_byte_masks whole hi mid lo)
qed


text \<open>
  C1. For every RGB triple with components in \<open>0..255\<close> the codec of \<^verbatim>\<open>update()\<close>
  yields exactly two bytes for the pixel: the 16-bit value
  \<open>((r >> 3) << 11) | ((g >> 2) << 5) | (b >> 3)\<close>, high byte first; reading the value
  back by the 5-6-5 layout recovers the truncated components, red as \<open>(r >> 3) << 3\<close>.
\<close>

theorem rgb565_codec_roundtrip:
  assumes "0 \<le> r" "r \<le> 255" "0 \<le> g" "g \<le> 255" "0 \<le> b" "b \<le> 255"
  shows "pack565 (r, g, b) = (push_bit 11 (drop_bit 3 r) OR push_bit 5 (drop_bit 2 g)) OR drop_bit 3 b
       \<and> pack565 (r, g, b) = (r div 8) * 2048 + (g div 4) * 32 + b div 8
       \<and> 0 \<le> pack565 (r, g, b) \<and> pack565 (r, g, b) < 65536
       \<and> length (rgb565_bytes (r, g, b)) = 2
       \<and> rgb565_bytes (r, g, b) = [pack565 (r, g, b) div 256, pack565 (r, g, b) mod 256]
       \<and> decode565 (rgb565_bytes (r, g, b)) =
             (push_bit 3 (drop_bit 3 r), push_bit 2 (drop_bit 2 g), push_bit 3 (drop_bit 3 b))
       \<and> convert_rgb565 [(r, g, b)] = rgb565_bytes (r, g, b)"
proof -
  have range: "0 \<le> pack565 (r, g, b) \<and> pack565 (r, g, b) < 65536"
    by (rule pack565_range [OF assms])
  then have "pack565 (r, g, b) div 256 mod 256 = pack565 (r, g, b) div 256"
    by (intro high_byte_small) simp_all
  then have bytes: "rgb565_bytes (r, g, b) = [pack565 (r, g, b) div 256, pack565 (r, g, b) mod 256]"
    by (simp add: rgb565_bytes_div_mod)
  have "pack565 (r, g, b) = (push_bit 11 (drop_bit 3 r) OR push_bit 5 (drop_bit 2 g)) OR drop_bit 3 b"
    by (simp add: pack565_def)
  moreover note pack565_sum [OF assms] range bytes decode_pack [OF assms]
  moreover have "length (rgb565_bytes (r, g, b)) = 2" by (simp add: bytes)
  moreover have "convert_rgb565 [(r, g, b)] = rgb565_bytes (r, g, b)" by simp
  ultimately show ?thesis by blast
qed

theorem rgb565_codec_roundtrip_witness:
  "rgb565_bytes (255, 0, 0) = [0xF8, 0x00] \<and> decode565 (rgb565_bytes (255, 0, 0)) = (248, 0, 0)
   \<and> decode565 (rgb565_bytes (201, 77, 6)) = (200, 76, 0)"
  using rgb565_codec_roundtrip [of 255 0 0] rgb565_codec_roundtrip [of 201 77 6]
  by (simp add: pack565_def decode565_def)

section \<open>Chunked pixel transfer\<close>

lemma decode_bus_data: "decode_bus HIGH (map SpiXfer cs) = map Data cs"
  by (induction cs) simp_all

lemma decode_bus_frame_events:
  "decode_bus dc (frame_events img) = Command [0x2C] # map Data (chunks (convert_rgb565 (im_data img)))"
  by (simp add: frame_events_def decode_bus_data)

lemma convert_rgb565_concat: "convert_rgb565 pixels = concat (map rgb565_bytes pixels)"
  by (induction pixels) simp_all

lemma ceil_div_le_iff:
  assumes "0 < (c::nat)"
  shows "((n + c - 1) div c \<le> a) = (n \<le> a * c)"
proof
  assume "(n + c - 1) div c \<le> a"
  then have "(n + c - 1) div c < a + 1" by simp
  then have "n + c - 1 < (a + 1) * c"
    using assms by (simp add: div_less_iff_less_mult)
  then show "n \<le> a * c" using assms by simp
next
  assume "n \<le> a * c"
  then have "n + c - 1 < (a + 1) * c" using assms by simp
  then have "(n + c - 1) div c < a + 1"
    using assms by (simp add: div_less_iff_less_mult)
  then show "(n + c - 1) div c \<le> a" by simp
qed

lemma py_range_multiples_list:
  "0 < c \<Longrightarrow> py_range (a * c) n c = map (\<lambda>j. j * c) [a..<(n + c - 1) div c]"
proof (induction "(n + c - 1) div c - a" arbitrary: a)
  case 0
  then have "(n + c - 1) div c \<le> a" by simp
  then have "n \<le> a * c" using ceil_div_le_iff [OF 0(2), of n a] by blast
  with 0 show ?case by (subst py_range.simps) simp
next
  case (Suc k)
  then have lt: "a < (n + c - 1) div c" by simp
  then have "\<not> n \<le> a * c" using ceil_div_le_iff [OF Suc.prems, of n a] by simp
  moreover have "py_range (Suc a * c) n c = map (\<lambda>j. j * c) [Suc a..<(n + c - 1) div c]"
    using Suc by (intro Suc.hyps(1)) simp_all
  then have "py_range (a * c + c) n c = map (\<lambda>j. j * c) [Suc a..<(n + c - 1) div c]"
    by (simp add: add.commute)
  ultimately show ?case
    using Suc.prems lt by (subst py_range.simps) (simp add: upt_conv_Cons)
qed

lemma chunk_offsets:
  "py_range 0 n chunk_size = map (\<lambda>j. j * chunk_size) [0..<(n + 4095) div chunk_size]"
  using py_range_multiples_list [of chunk_size 0 n] by (simp add: add.commute)

lemma length_chunks: "length (chunks data) = (length data + 4095) div chunk_size"
  by (simp add: chunks_def chunk_offsets)

lemma nth_chunks:
  assumes "p < length data"
  shows "chunks data ! (p div chunk_size) ! (p mod chunk_size) = data ! p"
proof -
  have "p div chunk_size < (length data + 4095) div chunk_size"
  proof -
    have "p div chunk_size * chunk_size \<le> p" by simp
    then have "\<not> length data \<le> p div chunk_size * chunk_size"
      using assms by linarith
    then have "\<not> (length data + chunk_size - 1) div chunk_size \<le> p div chunk_size"
      using ceil_div_le_iff [of chunk_size "length data" "p div chunk_size"] by simp
    then show ?thesis by simp
  qed
  then have "chunks data ! (p div chunk_size) = take chunk_size (drop (p div chunk_size * chunk_size) data)"
    by (simp add: chunks_def chunk_offsets)
  moreover have "p div chunk_size * chunk_size + p mod chunk_size = p" by simp
  ultimately show ?thesis
    using assms by (simp del: div_mult_mod_eq)
qed

text \<open>
  C7. For every byte stream of even length, the pixel-data sender writes it in chunks of
  at most 4096 bytes that start at even offsets (the multiples of 4096), so the two bytes
  of a pixel, at positions \<open>2k\<close> and \<open>2k + 1\<close>, always lie side by side in one chunk.
\<close>

theorem send_data_pixel_aligned_chunks:
  assumes "even (length data)" "spi_open s" "\<forall>k. \<not> bus_fault s k"
  shows "send_data data s =
           (Inr (), s\<lparr>trace := trace s @ GpioOutput DC_PIN HIGH # map SpiXfer (chunks data)\<rparr>)
       \<and> chunks data = map (\<lambda>j. take 4096 (drop (j * 4096) data)) [0..<(length data + 4095) div 4096]
       \<and> concat (chunks data) = data
       \<and> (\<forall>c \<in> set (chunks data). length c \<le> 4096 \<and> even (length c))
       \<and> (\<forall>i \<in> set (py_range 0 (length data) chunk_size). even i \<and> 4096 dvd i \<and> i < length data)
       \<and> (\<forall>p < length data. chunks data ! (p div 4096) ! (p mod 4096) = data ! p)
       \<and> (\<forall>k. 2 * k + 1 < length data \<longrightarrow>
             (2 * k) div 4096 = (2 * k + 1) div 4096 \<and> (2 * k + 1) mod 4096 = (2 * k) mod 4096 + 1)"
proof -
  have 1: "send_data data s =
           (Inr (), s\<lparr>trace := trace s @ GpioOutput DC_PIN HIGH # map SpiXfer (chunks data)\<rparr>)"
    using assms(2,3) by (rule send_data_healthy)
  have 2: "chunks data = map (\<lambda>j. take 4096 (drop (j * 4096) data)) [0..<(length data + 4095) div 4096]"
    by (simp add: chunks_def chunk_offsets comp_def)
  have 3: "\<forall>c \<in> set (chunks data). length c \<le> 4096 \<and> even (length c)"
  proof
    fix c assume "c \<in> set (chunks data)"
    then obtain j where c: "c = take 4096 (drop (j * 4096) data)"
      unfolding 2 by auto
    have "even (length data - j * 4096)" using assms(1) by simp
    then have "even (min (length data - j * 4096) 4096)"
      by (simp add: min_def)
    then show "length c \<le> 4096 \<and> even (length c)" by (simp add: c)
  qed
  have 4: "\<forall>i \<in> set (py_range 0 (length data) chunk_size). even i \<and> 4096 dvd i \<and> i < length data"
  proof
    fix i assume "i \<in> set (py_range 0 (length data) chunk_size)"
    then have "4096 dvd i \<and> i < length data"
      by (rule py_range_multiples) simp
    moreover then have "even i" by (intro dvd_trans [of 2 4096 i]) simp_all
    ultimately show "even i \<and> 4096 dvd i \<and> i < length data" by simp
  qed
  have 5: "\<forall>p < length data. chunks data ! (p div 4096) ! (p mod 4096) = data ! p"
    using nth_chunks by blast
  have 6: "(2 * k) div 4096 = (2 * k + 1) div 4096 \<and> (2 * k + 1) mod 4096 = (2 * k) mod 4096 + 1" for k :: nat
    using div_mult2_eq [of "2 * k + 1" 2 2048] div_mult2_eq [of "2 * k" 2 2048]
      mod_mult2_eq [of "2 * k + 1" 2 2048] mod_mult2_eq [of "2 * k" 2 2048]
    by simp
  from 1 2 3 4 5 6 concat_chunks show ?thesis by blast
qed


theorem send_data_pixel_aligned_chunks_witness:
  "even (length (replicate 8194 (7::int)))
   \<and> send_data (replicate 8194 7) (construct no_font_files never_faults) =
     (Inr (), (construct no_font_files never_faults)
        \<lparr>trace := trace (construct no_font_files never_faults) @
                   GpioOutput DC_PIN HIGH # map SpiXfer (chunks (replicate 8194 7))\<rparr>)
   \<and> concat (chunks (replicate 8194 7)) = replicate 8194 7"
proof -
  let ?s = "construct no_font_files never_faults"
  have 1: "even (length (replicate 8194 (7::int)))" by simp
  have 2: "spi_open ?s" by (simp add: construct_simps)
  have 3: "\<forall>k. \<not> bus_fault ?s k" by (simp add: construct_simps never_faults_def)
  from 1 send_data_pixel_aligned_chunks [OF 1 2 3] show ?thesis by blast
qed

lemma wf_Image_new: "wf_image (Image_new w h c)"
  by (simp add: wf_image_def Image_new_def)

text \<open>
  C2. For every state of the 128x128 buffer, \<^verbatim>\<open>update()\<close> on a working bus issues
  exactly one command, RAMWR (\<open>0x2C\<close>), and then streams \<open>128 * 128 * 2 = 32768\<close> data
  bytes, the two bytes of every pixel of the buffer in row-major order, in one pass.
\<close>

theorem update_one_ramwr_whole_frame:
  assumes "wf_image (heap s (self_image s))"
    and "im_width (heap s (self_image s)) = WIDTH" "im_height (heap s (self_image s)) = HEIGHT"
    and "spi_open s" "\<forall>k. \<not> bus_fault s k"
  shows "update s = (Inr (), s\<lparr>trace := trace s @ frame_events (heap s (self_image s))\<rparr>)
       \<and> decode_bus dc (frame_events (heap s (self_image s))) =
             Command [0x2C] # map Data (chunks (convert_rgb565 (im_data (heap s (self_image s)))))
       \<and> concat (chunks (convert_rgb565 (im_data (heap s (self_image s))))) =
             concat (map rgb565_bytes (im_data (heap s (self_image s))))
       \<and> length (im_data (heap s (self_image s))) = WIDTH * HEIGHT
       \<and> length (concat (chunks (convert_rgb565 (im_data (heap s (self_image s)))))) = 32768
       \<and> length (chunks (convert_rgb565 (im_data (heap s (self_image s))))) = 8"
proof -
  let ?img = "heap s (self_image s)"
  have n: "length (im_data ?img) = WIDTH * HEIGHT"
    using assms(1-3) by (simp add: wf_image_def)
  then have len: "length (convert_rgb565 (im_data ?img)) = 32768"
    by (simp add: length_convert_rgb565)
  have "concat (chunks (convert_rgb565 (im_data ?img))) = concat (map rgb565_bytes (im_data ?img))"
    by (simp add: concat_chunks convert_rgb565_concat)
  moreover have "length (chunks (convert_rgb565 (im_data ?img))) = 8"
    by (simp add: length_chunks len)
  moreover have "length (concat (chunks (convert_rgb565 (im_data ?img)))) = 32768"
    by (simp add: concat_chunks len)
  moreover note update_healthy [OF assms(4,5)] decode_bus_frame_events [of dc ?img] n
  ultimately show ?thesis by blast
qed

theorem update_one_ramwr_whole_frame_witness:
  "update (construct no_font_files never_faults) =
     (Inr (), (construct no_font_files never_faults)
        \<lparr>trace := trace (construct no_font_files never_faults) @
           frame_events (heap (construct no_font_files never_faults)
                           (self_image (construct no_font_files never_faults)))\<rparr>)
   \<and> length (concat (chunks (convert_rgb565 (im_data
         (heap (construct no_font_files never_faults)
            (self_image (construct no_font_files never_faults))))))) = 32768"
proof -
  let ?s = "construct no_font_files never_faults"
  have 1: "wf_image (heap ?s (self_image ?s))" by (simp add: construct_simps wf_Image_new)
  have 2: "im_width (heap ?s (self_image ?s)) = WIDTH" "im_height (heap ?s (self_image ?s)) = HEIGHT"
    by (simp_all add: construct_simps Image_new_def)
  have 3: "spi_open ?s" by (simp add: construct_simps)
  have 4: "\<forall>k. \<not> bus_fault ?s k" by (simp add: construct_simps never_faults_def)
  from update_one_ramwr_whole_frame [OF 1 2 3 4, of LOW] show ?thesis by blast
qed

section \<open>Font selection\<close>

lemma map_of_tabulate:
  "map_of (map (\<lambda>k. (k, f k)) ks) k = (if k \<in> set ks then Some (f k) else None)"
  by (induction ks) auto

lemma try_font_paths_find:
  "try_font_paths readable ps =
     map_option (\<lambda>p. (p, map_of (map (\<lambda>sz. (sz, TrueType p sz)) font_sizes))) (find readable ps)"
  by (induction ps) auto

lemma self_fonts_load_fonts:
  "self_fonts (load_fonts readable s) sz =
     (if sz \<in> set font_sizes
      then Some (case find readable font_paths of
                   Some font_path \<Rightarrow> TrueType font_path sz
                 | None \<Rightarrow> DefaultFont)
      else None)"
  by (simp add: load_fonts_def try_font_paths_find map_of_tabulate split: option.splits)

lemma draw_text_font_load_fonts:
  "draw_text_font (self_fonts (load_fonts readable s)) sz None =
     Some (case find readable font_paths of
             Some font_path \<Rightarrow> TrueType font_path (if sz \<in> set font_sizes then sz else 10)
           | None \<Rightarrow> DefaultFont)"
proof -
  have ten: "(10::int) \<in> set font_sizes" by (simp add: font_sizes_def)
  show ?thesis
    using ten by (simp add: draw_text_font_def self_fonts_load_fonts split: option.splits)
qed

text \<open>
  C8, as the code has it. After \<^verbatim>\<open>load_fonts\<close> the font \<^verbatim>\<open>draw_text\<close> selects for a
  requested size is the first font file of the candidate list that opens, at the
  requested size when that is one of 8, 9, 10, 12, 14, 16, 20, 24 and at size 10 for
  every other size, or the built-in default font when no file opens. The look-up always
  yields a font; \<^verbatim>\<open>draw_text\<close> hands exactly this font to the rasteriser and returns or
  raises as the rasteriser does, so a call with an unsupported size behaves as the call
  with size 10.
\<close>

theorem draw_text_font_exact_or_ten:
  "draw_text_font (self_fonts (load_fonts readable s)) sz None =
     Some (case find readable font_paths of
             Some font_path \<Rightarrow> TrueType font_path (if sz \<in> set font_sizes then sz else 10)
           | None \<Rightarrow> DefaultFont)
   \<and> draw_text rasterise text x y color sz None (load_fonts readable s) =
       (case rasterise
               (Some (case find readable font_paths of
                        Some font_path \<Rightarrow> TrueType font_path (if sz \<in> set font_sizes then sz else 10)
                      | None \<Rightarrow> DefaultFont))
               text (x, y) (pick_color color (255, 255, 255)) (heap s (self_draw s)) of
          Inl e \<Rightarrow> (Inl e, load_fonts readable s)
        | Inr img \<Rightarrow>
            (Inr (), (load_fonts readable s)\<lparr>heap := (heap s)(self_draw s := img)\<rparr>))
   \<and> (sz \<notin> set font_sizes \<longrightarrow>
         draw_text rasterise text x y color sz None (load_fonts readable s) =
         draw_text rasterise text x y color 10 None (load_fonts readable s))"
  by (simp add: draw_text_def Let_def draw_text_font_load_fonts load_fonts_frame
        split: sum.splits)

theorem draw_text_font_exact_or_ten_witness:
  "7 \<notin> set font_sizes
   \<and> draw_text_font (self_fonts (load_fonts dejavu_installed fresh_driver)) 7 None =
       Some (TrueType ''/usr/share/fonts/truetype/dejavu/DejaVuSans.ttf'' 10)
   \<and> draw_text_font (self_fonts (load_fonts dejavu_installed fresh_driver)) 24 None =
       Some (TrueType ''/usr/share/fonts/truetype/dejavu/DejaVuSans.ttf'' 24)
   \<and> draw_text_font (self_fonts (load_fonts no_font_files fresh_driver)) 24 None =
       Some DefaultFont
   \<and> draw_text no_glyphs ''Mode'' 30 118 (Tuple [150, 150, 150]) 7 None
         (load_fonts dejavu_installed fresh_driver) =
       draw_text no_glyphs ''Mode'' 30 118 (Tuple [150, 150, 150]) 10 None
         (load_fonts dejavu_installed fresh_driver)"
proof -
  have 7: "7 \<notin> set font_sizes" and 24: "24 \<in> set font_sizes"
    by (simp_all add: font_sizes_def)
  have d: "find dejavu_installed font_paths =
             Some ''/usr/share/fonts/truetype/dejavu/DejaVuSans.ttf''"
    by (simp add: font_paths_def dejavu_installed_def)
  have n: "find no_font_files font_paths = None"
    by (simp add: font_paths_def no_font_files_def)
  have a: "draw_text_font (self_fonts (load_fonts dejavu_installed fresh_driver)) 7 None =
       Some (TrueType ''/usr/share/fonts/truetype/dejavu/DejaVuSans.ttf'' 10)"
    using draw_text_font_exact_or_ten [of dejavu_installed fresh_driver 7] 7 by (simp add: d)
  have b: "draw_text_font (self_fonts (load_fonts dejavu_installed fresh_driver)) 24 None =
       Some (TrueType ''/usr/share/fonts/truetype/dejavu/DejaVuSans.ttf'' 24)"
    using draw_text_font_exact_or_ten [of dejavu_installed fresh_driver 24] 24 by (simp add: d)
  have c: "draw_text_font (self_fonts (load_fonts no_font_files fresh_driver)) 24 None =
       Some DefaultFont"
    using draw_text_font_exact_or_ten [of no_font_files fresh_driver 24] by (simp add: n)
  have e: "draw_text no_glyphs ''Mode'' 30 118 (Tuple [150, 150, 150]) 7 None
         (load_fonts dejavu_installed fresh_driver) =
       draw_text no_glyphs ''Mode'' 30 118 (Tuple [150, 150, 150]) 10 None
         (load_fonts dejavu_installed fresh_driver)"
    using draw_text_font_exact_or_ten
         [of dejavu_installed fresh_driver 7 no_glyphs "''Mode''" 30 118 "Tuple [150, 150, 150]"] 7
    by blast
  from 7 a b c e show ?thesis by blast
qed

text \<open>
  C8 as stated fails: size 7, which the camera screen requests, is nearest to the
  supported size 8, and the driver draws with the entry of size 10.
\<close>

theorem draw_text_font_not_nearest:
  "nearest_supported_size 7 = 8
   \<and> draw_text_font (self_fonts (construct dejavu_installed never_faults)) 7 None =
       Some (TrueType ''/usr/share/fonts/truetype/dejavu/DejaVuSans.ttf'' 10)
   \<and> draw_text_font (self_fonts (construct dejavu_installed never_faults)) 7 None \<noteq>
       self_fonts (construct dejavu_installed never_faults) (nearest_supported_size 7)"
  by (simp add: nearest_supported_size_def font_sizes_def construct_def load_fonts_def Let_def
        font_paths_def dejavu_installed_def draw_text_font_def)

section \<open>The start-up sequence\<close>

lemma commands_data: "commands (map Data cs) = []"
  by (induction cs) simp_all

text \<open>
  C5, as the code has it. On a working bus \<^verbatim>\<open>init_display()\<close> performs exactly this
  sequence: reset line high, 10 ms, low, 10 ms, high, 120 ms; software reset, 150 ms;
  sleep-out, 500 ms; frame rate, inversion, power, VCOM, inversion-off, memory access and
  16-bit pixel format; the column and row windows \<open>0..127\<close>, the extent of the 128x128
  buffer; then the two gamma tables and normal-mode-on with 10 ms; display-on with
  120 ms; and last it clears the drawing surface to black and pushes one frame.
\<close>

theorem init_display_sequence:
  assumes "spi_open s" "\<forall>k. \<not> bus_fault s k"
  shows "init_display s =
    (Inr (),
     s\<lparr>heap := (heap s)(self_draw s :=
          ImageDraw_rectangle (0, 0) (int WIDTH, int HEIGHT) (0, 0, 0) None (heap s (self_draw s))),
       trace := trace s @
         [GpioOutput RST_PIN HIGH, Sleep 0.01,
          GpioOutput RST_PIN LOW, Sleep 0.01,
          GpioOutput RST_PIN HIGH, Sleep 0.12,
          GpioOutput DC_PIN LOW, SpiXfer [0x01], Sleep 0.15,
          GpioOutput DC_PIN LOW, SpiXfer [0x11], Sleep 0.5,
          GpioOutput DC_PIN LOW, SpiXfer [0xB1], GpioOutput DC_PIN HIGH, SpiXfer [0x01, 0x2C, 0x2D],
          GpioOutput DC_PIN LOW, SpiXfer [0xB2], GpioOutput DC_PIN HIGH, SpiXfer [0x01, 0x2C, 0x2D],
          GpioOutput DC_PIN LOW, SpiXfer [0xB3], GpioOutput DC_PIN HIGH,
            SpiXfer [0x01, 0x2C, 0x2D, 0x01, 0x2C, 0x2D],
          GpioOutput DC_PIN LOW, SpiXfer [0xB4], GpioOutput DC_PIN HIGH, SpiXfer [0x07],
          GpioOutput DC_PIN LOW, SpiXfer [0xC0], GpioOutput DC_PIN HIGH, SpiXfer [0xA2, 0x02, 0x84],
          GpioOutput DC_PIN LOW, SpiXfer [0xC1], GpioOutput DC_PIN HIGH, SpiXfer [0xC5],
          GpioOutput DC_PIN LOW, SpiXfer [0xC2], GpioOutput DC_PIN HIGH, SpiXfer [0x0A, 0x00],
          GpioOutput DC_PIN LOW, SpiXfer [0xC3], GpioOutput DC_PIN HIGH, SpiXfer [0x8A, 0x2A],
          GpioOutput DC_PIN LOW, SpiXfer [0xC4], GpioOutput DC_PIN HIGH, SpiXfer [0x8A, 0xEE],
          GpioOutput DC_PIN LOW, SpiXfer [0xC5], GpioOutput DC_PIN HIGH, SpiXfer [0x0E],
          GpioOutput DC_PIN LOW, SpiXfer [0x20],
          GpioOutput DC_PIN LOW, SpiXfer [0x36], GpioOutput DC_PIN HIGH, SpiXfer [0x00],
          GpioOutput DC_PIN LOW, SpiXfer [0x3A], GpioOutput DC_PIN HIGH, SpiXfer [0x05],
          GpioOutput DC_PIN LOW, SpiXfer [0x2A], GpioOutput DC_PIN HIGH, SpiXfer [0x00, 0x00, 0x00, 0x7F],
          GpioOutput DC_PIN LOW, SpiXfer [0x2B], GpioOutput DC_PIN HIGH, SpiXfer [0x00, 0x00, 0x00, 0x7F],
          GpioOutput DC_PIN LOW, SpiXfer [0xE0], GpioOutput DC_PIN HIGH,
            SpiXfer [0x02, 0x1C, 0x07, 0x12, 0x37, 0x32, 0x29, 0x2D,
                     0x29, 0x25, 0x2B, 0x39, 0x00, 0x01, 0x03, 0x10],
          GpioOutput DC_PIN LOW, SpiXfer [0xE1], GpioOutput DC_PIN HIGH,
            SpiXfer [0x03, 0x1D, 0x07, 0x06, 0x2E, 0x2C, 0x29, 0x2D,
                     0x2E, 0x2E, 0x37, 0x3F, 0x00, 0x00, 0x02, 0x10],
          GpioOutput DC_PIN LOW, SpiXfer [0x13], Sleep 0.01,
          GpioOutput DC_PIN LOW, SpiXfer [0x29], Sleep 0.12] @
         frame_events
           (((heap s)(self_draw s :=
               ImageDraw_rectangle (0, 0) (int WIDTH, int HEIGHT) (0, 0, 0) None (heap s (self_draw s))))
            (self_image s)),
       console := console s @ [InitializingDisplay, DisplayReady]\<rparr>)
   \<and> window_params WIDTH = [0x00, 0x00, 0x00, 0x7F]
   \<and> window_params HEIGHT = [0x00, 0x00, 0x00, 0x7F]"
  using assms
  by (simp add: init_display_def print_def gpio_output_def sleep_def clear_returns fits_defs
        send_command_healthy send_command_data_healthy update_healthy window_params_def)

theorem init_display_sequence_witness:
  "fst (init_display (construct no_font_files never_faults)) = Inr ()
   \<and> take 12 (trace (snd (init_display (construct no_font_files never_faults)))) =
        [GpioOutput RST_PIN HIGH, Sleep 0.01, GpioOutput RST_PIN LOW, Sleep 0.01,
         GpioOutput RST_PIN HIGH, Sleep 0.12,
         GpioOutput DC_PIN LOW, SpiXfer [0x01], Sleep 0.15,
         GpioOutput DC_PIN LOW, SpiXfer [0x11], Sleep 0.5]"
proof -
  let ?s = "construct no_font_files never_faults"
  have 1: "spi_open ?s" by (simp add: construct_simps)
  have 2: "\<forall>k. \<not> bus_fault ?s k" by (simp add: construct_simps never_faults_def)
  have 3: "trace ?s = []" by (simp add: construct_simps)
  from init_display_sequence [OF 1 2] show ?thesis
    by (simp add: 3)
qed

text \<open>
  C5 as stated fails on the order: the gamma tables (\<open>0xE0\<close>, \<open>0xE1\<close>) belong to the
  configuration and are sent after the address windows (\<open>0x2A\<close>, \<open>0x2B\<close>), not before.
\<close>

theorem init_display_window_before_gamma:
  "commands (decode_bus LOW (trace (snd (init_display (construct no_font_files never_faults))))) =
     [0x01, 0x11, 0xB1, 0xB2, 0xB3, 0xB4, 0xC0, 0xC1, 0xC2, 0xC3, 0xC4, 0xC5, 0x20, 0x36, 0x3A,
      0x2A, 0x2B, 0xE0, 0xE1, 0x13, 0x29, 0x2C]
   \<and> 0xE0 \<notin> set (takeWhile (\<lambda>c. c \<noteq> 0x2A)
        (commands (decode_bus LOW
           (trace (snd (init_display (construct no_font_files never_faults)))))))"
proof -
  let ?s = "construct no_font_files never_faults"
  have 1: "spi_open ?s" by (simp add: construct_simps)
  have 2: "\<forall>k. \<not> bus_fault ?s k" by (simp add: construct_simps never_faults_def)
  have 3: "trace ?s = []" by (simp add: construct_simps)
  have "commands (decode_bus LOW (trace (snd (init_display ?s)))) =
     [0x01, 0x11, 0xB1, 0xB2, 0xB3, 0xB4, 0xC0, 0xC1, 0xC2, 0xC3, 0xC4, 0xC5, 0x20, 0x36, 0x3A,
      0x2A, 0x2B, 0xE0, 0xE1, 0x13, 0x29, 0x2C]"
    using 1 2
    by (simp add: init_display_def print_def gpio_output_def sleep_def clear_returns fits_defs
        send_command_healthy send_command_data_healthy update_healthy 3
        decode_bus_frame_events commands_data)
  then show ?thesis by simp
qed

section \<open>Painting\<close>

lemma paint_size [simp]:
  "im_width (paint m c img) = im_width img"
  "im_height (paint m c img) = im_height img"
  "length (im_data (paint m c img)) = length (im_data img)"
  by (simp_all add: paint_def)

lemma wf_image_paint [simp]: "wf_image (paint m c img) = wf_image img"
  by (simp add: wf_image_def)

lemma pixel_index:
  assumes "x < w" "y < h"
  shows "y * w + x < w * (h::nat)" "(y * w + x) mod w = x" "(y * w + x) div w = y"
proof -
  have "y * w + x < y * w + w" using assms(1) by simp
  also have "\<dots> = Suc y * w" by simp
  also have "\<dots> \<le> h * w" using assms(2) by (intro mult_le_mono1) simp
  finally show "y * w + x < w * h" by (simp add: mult.commute)
  show "(y * w + x) mod w = x" "(y * w + x) div w = y" using assms(1) by simp_all
qed

lemma getpixel_paint:
  assumes "wf_image img" "x < im_width img" "y < im_height img"
  shows "getpixel (paint m c img) (x, y) = (if m (int x, int y) then c else getpixel img (x, y))"
proof -
  let ?i = "y * im_width img + x"
  have "?i < length (im_data img)"
    using assms pixel_index(1) [of x "im_width img" y "im_height img"] by (simp add: wf_image_def)
  moreover have "?i mod im_width img = x" "?i div im_width img = y"
    using assms pixel_index(2,3) [of x "im_width img" y "im_height img"] by simp_all
  ultimately show ?thesis
    by (simp add: getpixel_def paint_def)
qed

lemma getpixel_rectangle:
  assumes "wf_image img" "x < im_width img" "y < im_height img"
  shows "getpixel (ImageDraw_rectangle p0 p1 fill None img) (x, y) =
           (if in_box p0 p1 (int x, int y) then ink fill else getpixel img (x, y))"
  using assms by (simp add: ImageDraw_rectangle_def getpixel_paint)

lemma wf_image_rectangle [simp]:
  "wf_image (ImageDraw_rectangle p0 p1 fill outline img) = wf_image img"
  by (simp add: ImageDraw_rectangle_def Let_def split: option.splits)

lemma rectangle_size [simp]:
  "im_width (ImageDraw_rectangle p0 p1 fill outline img) = im_width img"
  "im_height (ImageDraw_rectangle p0 p1 fill outline img) = im_height img"
  by (simp_all add: ImageDraw_rectangle_def Let_def split: option.splits)

lemma rectangle_covers_image:
  assumes "wf_image img" "im_width img = WIDTH" "im_height img = HEIGHT"
  shows "ImageDraw_rectangle (0, 0) (int WIDTH, int HEIGHT) c None img = Image_new WIDTH HEIGHT c"
proof -
  have n: "length (im_data img) = 16384" using assms by (simp add: wf_image_def)
  have "map (\<lambda>i. if in_box (0, 0) (int WIDTH, int HEIGHT) (int (i mod WIDTH), int (i div WIDTH))
                   then ink c else im_data img ! i) [0..<16384]
        = map (\<lambda>i. ink c) [0..<16384]"
  proof (rule map_cong [OF refl])
    fix i :: nat assume "i \<in> set [0..<16384]"
    then have "i < 128 * 128" by simp
    then have "i div 128 < 128" by (simp add: less_mult_imp_div_less)
    moreover have "i mod 128 < 128" by simp
    ultimately show "(if in_box (0, 0) (int WIDTH, int HEIGHT) (int (i mod WIDTH), int (i div WIDTH))
                   then ink c else im_data img ! i) = ink c"
      by (simp add: in_box_def)
  qed
  also have "\<dots> = replicate 16384 (ink c)" by (simp add: map_replicate_const)
  finally show ?thesis
    using assms n by (simp add: ImageDraw_rectangle_def paint_def Image_new_def)
qed

section \<open>Lifecycle: no readiness or closed check\<close>

lemma update_closed: "\<not> spi_open s \<Longrightarrow> update s = (Inl OSError, s\<lparr>trace := trace s @ [GpioOutput DC_PIN LOW]\<rparr>)"
  by (simp add: update_def Let_def send_command_def gpio_output_def spi_xfer2_def)

lemma cleanup_healthy:
  assumes "spi_open s" "\<forall>k. \<not> bus_fault s k"
  shows "cleanup s =
    (Inr (),
     s\<lparr>heap := (heap s)(self_draw s :=
          ImageDraw_rectangle (0, 0) (int WIDTH, int HEIGHT) (0, 0, 0) None (heap s (self_draw s))),
       trace := trace s @
         frame_events
           (((heap s)(self_draw s :=
               ImageDraw_rectangle (0, 0) (int WIDTH, int HEIGHT) (0, 0, 0) None (heap s (self_draw s))))
            (self_image s)) @
         [SpiClose, GpioOutput RST_PIN LOW],
       spi_open := False,
       console := console s @ [CleanupComplete]\<rparr>)"
  using assms
  by (simp add: cleanup_def clear_returns fits_defs update_healthy spi_close_def gpio_output_def
        print_def)

lemma cleanup_closed:
  assumes "\<not> spi_open s"
  shows "cleanup s =
    (Inr (),
     s\<lparr>heap := (heap s)(self_draw s :=
          ImageDraw_rectangle (0, 0) (int WIDTH, int HEIGHT) (0, 0, 0) None (heap s (self_draw s))),
       trace := trace s @ [GpioOutput DC_PIN LOW],
       console := console s @ [CleanupError OSError]\<rparr>)"
  using assms
  by (simp add: cleanup_def clear_returns fits_defs update_closed print_def)

lemma cleanup_never_raises: "fst (cleanup s) = Inr ()"
  by (simp add: cleanup_def print_def split: prod.splits sum.splits)





section \<open>The drawing handle and the buffer\<close>

lemma rectangle_solid [simp]:
  "ImageDraw_rectangle (0, 0) (128, 128) c None (solid c0) = solid c"
  using rectangle_covers_image [of "solid c0" c]
  by (simp add: wf_Image_new) (simp add: Image_new_def)

lemma frame_events_inject:
  assumes "frame_events a = frame_events b"
  shows "convert_rgb565 (im_data a) = convert_rgb565 (im_data b)"
proof -
  from assms have "map SpiXfer (chunks (convert_rgb565 (im_data a))) =
                   map SpiXfer (chunks (convert_rgb565 (im_data b)))"
    by (simp add: frame_events_def)
  then have "chunks (convert_rgb565 (im_data a)) = chunks (convert_rgb565 (im_data b))"
    by (simp add: inj_map_eq_map inj_on_def)
  then have "concat (chunks (convert_rgb565 (im_data a))) = concat (chunks (convert_rgb565 (im_data b)))"
    by simp
  then show ?thesis by (simp add: concat_chunks)
qed

lemma frame_events_solid_differ:
  assumes "rgb565_bytes (ink c1) \<noteq> rgb565_bytes (ink c2)"
  shows "frame_events (solid c1) \<noteq> frame_events (solid c2)"
proof
  assume "frame_events (solid c1) = frame_events (solid c2)"
  then have "convert_rgb565 (replicate (Suc 16383) (ink c1)) = convert_rgb565 (replicate (Suc 16383) (ink c2))"
    using frame_events_inject [of "solid c1" "solid c2"] by (simp add: Image_new_def)
  then have "rgb565_bytes (ink c1) @ convert_rgb565 (replicate 16383 (ink c1))
           = rgb565_bytes (ink c2) @ convert_rgb565 (replicate 16383 (ink c2))"
    by (simp only: replicate_Suc convert_rgb565.simps)
  then have "rgb565_bytes (ink c1) = rgb565_bytes (ink c2)"
    by (simp add: rgb565_bytes_def Let_def)
  with assms show False by simp
qed

lemma flash_screen_healthy:
  assumes "spi_open s" "\<forall>k. \<not> bus_fault s k" "ink_fits (pick_color color (0, 0, 0))"
  shows "flash_screen color duration s =
    (Inr (),
     s\<lparr>heap := ((heap s)(next_id s := heap s (self_image s)))
          (self_draw s :=
             ImageDraw_rectangle (0, 0) (int WIDTH, int HEIGHT) (pick_color color (0, 0, 0)) None
               (((heap s)(next_id s := heap s (self_image s))) (self_draw s))),
       next_id := Suc (next_id s),
       self_image := next_id s,
       trace := trace s @
         frame_events
           ((((heap s)(next_id s := heap s (self_image s)))
              (self_draw s :=
                 ImageDraw_rectangle (0, 0) (int WIDTH, int HEIGHT) (pick_color color (0, 0, 0)) None
                   (((heap s)(next_id s := heap s (self_image s))) (self_draw s))))
            (self_image s)) @
         [Sleep duration] @
         frame_events
           ((((heap s)(next_id s := heap s (self_image s)))
              (self_draw s :=
                 ImageDraw_rectangle (0, 0) (int WIDTH, int HEIGHT) (pick_color color (0, 0, 0)) None
                   (((heap s)(next_id s := heap s (self_image s))) (self_draw s))))
            (next_id s))\<rparr>)"
  using assms
  by (simp add: flash_screen_def Image_copy_def clear_returns update_healthy sleep_def
        set_image_def)

text \<open>
  What does hold of \<^verbatim>\<open>flash_screen\<close> in every state whose references are allocated:
  the buffer it leaves has the content the buffer had, and it is a new object, no
  longer the one the drawing handle paints.
\<close>

lemma flash_screen_restores_content:
  assumes "spi_open s" "\<forall>k. \<not> bus_fault s k" "self_draw s < next_id s"
    and "ink_fits (pick_color color (0, 0, 0))"
  shows "heap (snd (flash_screen color duration s)) (self_image (snd (flash_screen color duration s)))
           = heap s (self_image s)
       \<and> self_image (snd (flash_screen color duration s)) \<noteq> self_draw (snd (flash_screen color duration s))"
  using assms by (simp add: flash_screen_healthy)

lemma fresh_driver_facts:
  "spi_open fresh_driver" "\<forall>k. \<not> bus_fault fresh_driver k" "trace fresh_driver = []"
  "heap fresh_driver = (\<lambda>i. Image_new 0 0 (0, 0, 0))(0 := solid (0, 0, 0))"
  "self_image fresh_driver = 0"
  "self_draw fresh_driver = 0" "next_id fresh_driver = 1"
  by (simp_all add: construct_simps never_faults_def)

text \<open>
  C10 fails at: construct, \<^verbatim>\<open>flash_screen((255, 255, 255), 0.1)\<close>, \<^verbatim>\<open>clear((255, 0, 0))\<close>,
  \<^verbatim>\<open>update()\<close>. After the flash the buffer is object 1 and the drawing handle still
  paints object 0; the clear turns object 0 red, and the update transmits the black
  content of object 1.
\<close>

theorem drawing_after_flash_not_transmitted:
  "self_draw (snd (flash_screen (Tuple [255, 255, 255]) 0.1 fresh_driver)) = 0
   \<and> self_image (snd (flash_screen (Tuple [255, 255, 255]) 0.1 fresh_driver)) = 1
   \<and> heap (snd (clear (Tuple [255, 0, 0])
              (snd (flash_screen (Tuple [255, 255, 255]) 0.1 fresh_driver)))) 0 = solid (255, 0, 0)
   \<and> heap (snd (clear (Tuple [255, 0, 0])
              (snd (flash_screen (Tuple [255, 255, 255]) 0.1 fresh_driver)))) 1 = solid (0, 0, 0)
   \<and> fst (update (snd (clear (Tuple [255, 0, 0])
              (snd (flash_screen (Tuple [255, 255, 255]) 0.1 fresh_driver))))) = Inr ()
   \<and> trace (snd (update (snd (clear (Tuple [255, 0, 0])
              (snd (flash_screen (Tuple [255, 255, 255]) 0.1 fresh_driver)))))) =
        frame_events (solid (255, 255, 255)) @ [Sleep 0.1] @ frame_events (solid (0, 0, 0)) @
        frame_events (solid (0, 0, 0))
   \<and> frame_events (solid (0, 0, 0)) \<noteq> frame_events (solid (255, 0, 0))"
proof -
  have "frame_events (solid (0, 0, 0)) \<noteq> frame_events (solid (255, 0, 0))"
    by (rule frame_events_solid_differ) (simp add: ink_def CLIP8_def rgb565_bytes_def pack565_def)
  then show ?thesis
    by (simp add: flash_screen_healthy fresh_driver_facts clear_returns fits_defs update_healthy)
qed


text \<open>
  C6 fails at the second call: construct, \<^verbatim>\<open>flash_screen((255, 255, 255), 0.1)\<close> twice.
  The first call sends the white frame, waits and sends the saved black frame. In the
  second call the clear paints the object the buffer no longer is, and the frame sent
  before the wait is the black buffer, not the white flash.
\<close>

theorem second_flash_sends_no_flash_frame:
  "trace (snd (flash_screen (Tuple [255, 255, 255]) 0.1 fresh_driver)) =
     frame_events (solid (255, 255, 255)) @ [Sleep 0.1] @ frame_events (solid (0, 0, 0))
   \<and> fst (flash_screen (Tuple [255, 255, 255]) 0.1
            (snd (flash_screen (Tuple [255, 255, 255]) 0.1 fresh_driver))) = Inr ()
   \<and> trace (snd (flash_screen (Tuple [255, 255, 255]) 0.1
              (snd (flash_screen (Tuple [255, 255, 255]) 0.1 fresh_driver)))) =
       (frame_events (solid (255, 255, 255)) @ [Sleep 0.1] @ frame_events (solid (0, 0, 0))) @
       (frame_events (solid (0, 0, 0)) @ [Sleep 0.1] @ frame_events (solid (0, 0, 0)))
   \<and> frame_events (solid (0, 0, 0)) \<noteq> frame_events (solid (255, 255, 255))"
proof -
  have "frame_events (solid (0, 0, 0)) \<noteq> frame_events (solid (255, 255, 255))"
    by (rule frame_events_solid_differ) (simp add: ink_def CLIP8_def rgb565_bytes_def pack565_def)
  then show ?thesis
    by (simp add: flash_screen_healthy fresh_driver_facts fits_defs)
qed

section \<open>Teardown\<close>

lemma cleanup_twice_returns: "fst (cleanup (snd (cleanup s))) = Inr ()"
  by (rule cleanup_never_raises)

text \<open>
  C9 fails at: construct, \<^verbatim>\<open>clear((255, 255, 255))\<close>, \<^verbatim>\<open>flash_screen((255, 255, 255), 0.2)\<close>,
  \<^verbatim>\<open>cleanup()\<close>. The teardown runs its four steps in order and returns normally, but its
  clear paints the object the buffer no longer is: the frame pushed before the bus is
  released is the white buffer, and the buffer is still white afterwards.
\<close>

theorem cleanup_after_flash_pushes_unblanked_buffer:
  "fst (cleanup (snd (flash_screen (Tuple [255, 255, 255]) 0.2
          (snd (clear (Tuple [255, 255, 255]) fresh_driver))))) = Inr ()
   \<and> trace (snd (cleanup (snd (flash_screen (Tuple [255, 255, 255]) 0.2
          (snd (clear (Tuple [255, 255, 255]) fresh_driver)))))) =
       (frame_events (solid (255, 255, 255)) @ [Sleep 0.2] @ frame_events (solid (255, 255, 255))) @
       frame_events (solid (255, 255, 255)) @ [SpiClose, GpioOutput RST_PIN LOW]
   \<and> heap (snd (cleanup (snd (flash_screen (Tuple [255, 255, 255]) 0.2
          (snd (clear (Tuple [255, 255, 255]) fresh_driver)))))) 1 = solid (255, 255, 255)
   \<and> self_image (snd (cleanup (snd (flash_screen (Tuple [255, 255, 255]) 0.2
          (snd (clear (Tuple [255, 255, 255]) fresh_driver)))))) = 1
   \<and> frame_events (solid (255, 255, 255)) \<noteq> frame_events (solid (0, 0, 0))"
proof -
  have "frame_events (solid (255, 255, 255)) \<noteq> frame_events (solid (0, 0, 0))"
    by (rule frame_events_solid_differ) (simp add: ink_def CLIP8_def rgb565_bytes_def pack565_def)
  then show ?thesis
    by (simp add: flash_screen_healthy cleanup_healthy fresh_driver_facts clear_returns fits_defs)
qed

section \<open>Rectangles\<close>

lemma draw_rectangle_pixels:
  assumes "wf_image (heap s (self_draw s))"
    and "px < im_width (heap s (self_draw s))" "py < im_height (heap s (self_draw s))"
    and "rectangle_raises (x, y) (x + int w, y + int h) (pick_color color (255, 255, 255)) None = None"
  shows "getpixel (heap (snd (draw_rectangle x y w h color None s)) (self_draw s)) (px, py) =
           (if x \<le> int px \<and> int px \<le> x + int w \<and> y \<le> int py \<and> int py \<le> y + int h
            then ink (pick_color color (255, 255, 255))
            else getpixel (heap s (self_draw s)) (px, py))"
  using assms by (simp add: draw_rectangle_returns getpixel_rectangle in_box_def)

lemma convert_rgb565_pixel:
  "k < length pixels \<Longrightarrow>
   take 2 (drop (2 * k) (convert_rgb565 pixels)) = rgb565_bytes (pixels ! k)"
proof (induction pixels arbitrary: k)
  case Nil
  then show ?case by simp
next
  case (Cons p ps)
  have len: "length (rgb565_bytes p) = 2" by (simp add: rgb565_bytes_def Let_def)
  show ?case
  proof (cases k)
    case 0
    then show ?thesis by (simp add: len)
  next
    case (Suc j)
    with Cons.prems have "j < length ps" by simp
    from Cons.IH [OF this] Suc show ?thesis by (simp add: len)
  qed
qed

text \<open>
  C3 fails at its own scenario: construct, \<^verbatim>\<open>clear((0, 0, 0))\<close>,
  \<^verbatim>\<open>draw_rectangle(10, 10, 20, 20, (255, 0, 0))\<close>, \<^verbatim>\<open>update()\<close>. The box handed to the
  library ends at \<open>(30, 30)\<close> and includes that corner, so column 30 and row 30 are red as
  well: the pixel \<open>(30, 10)\<close>, outside of \<open>10..29\<close>, is transmitted as \<open>0xF8, 0x00\<close>.
\<close>

theorem rectangle_includes_far_edge:
  "getpixel (heap (snd (draw_rectangle 10 10 20 20 (Tuple [255, 0, 0]) None
                     (snd (clear (Tuple [0, 0, 0]) fresh_driver)))) 0) (30, 10) = (255, 0, 0)
   \<and> getpixel (heap (snd (draw_rectangle 10 10 20 20 (Tuple [255, 0, 0]) None
                     (snd (clear (Tuple [0, 0, 0]) fresh_driver)))) 0) (30, 30) = (255, 0, 0)
   \<and> getpixel (heap (snd (draw_rectangle 10 10 20 20 (Tuple [255, 0, 0]) None
                     (snd (clear (Tuple [0, 0, 0]) fresh_driver)))) 0) (31, 10) = (0, 0, 0)
   \<and> fst (update (snd (draw_rectangle 10 10 20 20 (Tuple [255, 0, 0]) None
                     (snd (clear (Tuple [0, 0, 0]) fresh_driver))))) = Inr ()
   \<and> trace (snd (update (snd (draw_rectangle 10 10 20 20 (Tuple [255, 0, 0]) None
                     (snd (clear (Tuple [0, 0, 0]) fresh_driver)))))) =
       frame_events (heap (snd (draw_rectangle 10 10 20 20 (Tuple [255, 0, 0]) None
                     (snd (clear (Tuple [0, 0, 0]) fresh_driver)))) 0)
   \<and> take 2 (drop (2 * (10 * WIDTH + 30))
         (convert_rgb565 (im_data (heap (snd (draw_rectangle 10 10 20 20 (Tuple [255, 0, 0]) None
                     (snd (clear (Tuple [0, 0, 0]) fresh_driver)))) 0)))) = [0xF8, 0x00]"
proof -
  let ?s1 = "snd (clear (Tuple [0, 0, 0]) fresh_driver)"
  let ?s2 = "snd (draw_rectangle 10 10 20 20 (Tuple [255, 0, 0]) None ?s1)"
  have s1: "heap ?s1 = (\<lambda>i. Image_new 0 0 (0, 0, 0))(0 := solid (0, 0, 0))" "self_draw ?s1 = 0"
    "self_image ?s1 = 0" "spi_open ?s1" "\<forall>k. \<not> bus_fault ?s1 k" "trace ?s1 = []"
    by (simp_all add: clear_returns fits_defs fresh_driver_facts)
  have img: "wf_image (heap ?s1 (self_draw ?s1))" "im_width (heap ?s1 (self_draw ?s1)) = WIDTH"
    "im_height (heap ?s1 (self_draw ?s1)) = HEIGHT"
    by (simp_all add: s1 wf_Image_new) (simp_all add: Image_new_def)
  have black: "getpixel (heap ?s1 (self_draw ?s1)) (px, py) = (0, 0, 0)" if "px < WIDTH" "py < HEIGHT" for px py
    using that pixel_index(1) [of px WIDTH py HEIGHT]
    by (simp add: s1 getpixel_def Image_new_def ink_def CLIP8_def)
  have px: "getpixel (heap ?s2 0) (px, py) =
           (if 10 \<le> int px \<and> int px \<le> 30 \<and> 10 \<le> int py \<and> int py \<le> 30
            then (255, 0, 0) else (0, 0, 0))" if "px < WIDTH" "py < HEIGHT" for px py
    using draw_rectangle_pixels [OF img(1), of px py 10 10 20 20 "Tuple [255, 0, 0]"] that img(2,3)
      black [OF that]
    by (simp add: s1 ink_def CLIP8_def rectangle_raises_def fits_defs)
  have s2: "spi_open ?s2" "\<forall>k. \<not> bus_fault ?s2 k" "trace ?s2 = []" "self_image ?s2 = 0"
    by (simp_all add: draw_rectangle_returns rectangle_raises_def fits_defs s1)
  have data: "length (im_data (heap ?s2 0)) = 16384" "im_width (heap ?s2 0) = WIDTH"
    by (simp_all add: draw_rectangle_returns rectangle_raises_def fits_defs s1 ImageDraw_rectangle_def)
       (simp_all add: Image_new_def)
  have "take 2 (drop (2 * (10 * WIDTH + 30)) (convert_rgb565 (im_data (heap ?s2 0))))
          = rgb565_bytes (im_data (heap ?s2 0) ! (10 * WIDTH + 30))"
    by (rule convert_rgb565_pixel) (simp add: data)
  also have "im_data (heap ?s2 0) ! (10 * WIDTH + 30) = getpixel (heap ?s2 0) (30, 10)"
    by (simp add: getpixel_def data)
  also have "rgb565_bytes (getpixel (heap ?s2 0) (30, 10)) = [0xF8, 0x00]"
    by (simp add: px rgb565_bytes_def pack565_def)
  finally have bytes: "take 2 (drop (2 * (10 * WIDTH + 30)) (convert_rgb565 (im_data (heap ?s2 0)))) = [0xF8, 0x00]" .
  have "update ?s2 = (Inr (), ?s2\<lparr>trace := trace ?s2 @ frame_events (heap ?s2 (self_image ?s2))\<rparr>)"
    using s2(1,2) by (rule update_healthy)
  then have "fst (update ?s2) = Inr ()" "trace (snd (update ?s2)) = frame_events (heap ?s2 0)"
    by (simp_all add: s2)
  with bytes px [of 30 10] px [of 30 30] px [of 31 10] show ?thesis by simp
qed

section \<open>What holds while the drawing handle is bound to the buffer\<close>

text \<open>
  On a driver whose handle still paints the buffer (as constructed, until the first
  \<^verbatim>\<open>flash_screen\<close>), the flash sends the solid colour frame, waits, and sends the saved
  content; and the teardown pushes a black frame.
\<close>

lemma flash_screen_bound_handle:
  assumes "spi_open s" "\<forall>k. \<not> bus_fault s k"
    and "self_draw s = self_image s" "self_image s < next_id s"
    and "wf_image (heap s (self_image s))"
    and "im_width (heap s (self_image s)) = WIDTH" "im_height (heap s (self_image s)) = HEIGHT"
    and "ink_fits (pick_color color (0, 0, 0))"
  shows "fst (flash_screen color duration s) = Inr ()"
    and "trace (snd (flash_screen color duration s)) =
           trace s @ frame_events (solid (pick_color color (0, 0, 0))) @ [Sleep duration] @
           frame_events (heap s (self_image s))"
    and "heap (snd (flash_screen color duration s)) (self_image (snd (flash_screen color duration s)))
           = heap s (self_image s)"
  using assms rectangle_covers_image [OF assms(5-7), of "pick_color color (0, 0, 0)"]
  by (simp_all add: flash_screen_healthy)

lemma cleanup_bound_handle:
  assumes "spi_open s" "\<forall>k. \<not> bus_fault s k"
    and "self_draw s = self_image s"
    and "wf_image (heap s (self_image s))"
    and "im_width (heap s (self_image s)) = WIDTH" "im_height (heap s (self_image s)) = HEIGHT"
  shows "fst (cleanup s) = Inr ()"
    and "trace (snd (cleanup s)) =
           trace s @ frame_events (solid (0, 0, 0)) @ [SpiClose, GpioOutput RST_PIN LOW]"
    and "\<not> spi_open (snd (cleanup s))"
  using assms rectangle_covers_image [OF assms(4-6), of "(0, 0, 0)"]
  by (simp_all add: cleanup_healthy)

end
